theory Spec2Isabelle
  imports Main "HOL-Library.AList"
begin

section \<open>STOMP over WebSocket client: the protocol engine of stomp\_ws/stomp.py\<close>

subsection \<open>Strings, exceptions and the string primitives the code calls\<close>

text \<open>
  A Python \<open>str\<close> is a sequence of Unicode code points, and \<open>len\<close> counts code points.
  A code point is a natural number here; a \<open>str\<close> is a list of them. Literals of the
  source are written with \<open>str\<close>, which maps an ASCII literal to its code points.
\<close>

type_synonym codepoint = nat
type_synonym pystr = "codepoint list"

definition str :: "string \<Rightarrow> pystr" where
  "str s = map of_char s"

text \<open>The table \<open>BYTE\<close> of the source: \<open>BYTE['LF']\<close> and \<open>BYTE['NULL']\<close>, one character each.\<close>

definition LF :: codepoint where
  "LF = 10"

definition NULL :: codepoint where
  "NULL = 0"

definition colon :: codepoint where
  "colon = 58"

datatype exn =
    IndexError
  | KeyError
  | AttributeError
  | WebSocketConnectionClosedException pystr
  | ConnectionResetError pystr
  | OtherException pystr

text \<open>\<open>xs[i]\<close> for an index that is not negative: out of range raises IndexError.\<close>

definition py_index :: "'a list \<Rightarrow> nat \<Rightarrow> exn + 'a" where
  "py_index xs i = (if i < length xs then Inr (xs ! i) else Inl IndexError)"

text \<open>
  \<open>s.split(sep)\<close> for a separator of one character: one more piece than there are
  separators, the empty string giving one empty piece. The result is never the empty list
  (lemma \<open>split_not_Nil\<close> below), so the last case of the second equation is never taken.
\<close>

fun split :: "'a \<Rightarrow> 'a list \<Rightarrow> 'a list list" where
  "split sep [] = [[]]"
| "split sep (c # cs) =
     (if c = sep then [] # split sep cs
      else (case split sep cs of
              piece # pieces \<Rightarrow> (c # piece) # pieces
            | [] \<Rightarrow> [[c]]))"

text \<open>\<open>s.split(sep, 1)\<close>: split at the first separator only.\<close>

definition split_max1 :: "'a \<Rightarrow> 'a list \<Rightarrow> 'a list list" where
  "split_max1 sep s =
     (if sep \<in> set s
      then [takeWhile (\<lambda>c. c \<noteq> sep) s, tl (dropWhile (\<lambda>c. c \<noteq> sep) s)]
      else [s])"

text \<open>The code points for which \<open>str.isspace\<close> holds, which \<open>str.strip()\<close> removes.\<close>

definition isspace :: "codepoint \<Rightarrow> bool" where
  "isspace c =
     ((9 \<le> c \<and> c \<le> 13) \<or> (28 \<le> c \<and> c \<le> 32) \<or> c = 133 \<or> c = 160 \<or> c = 5760
      \<or> (8192 \<le> c \<and> c \<le> 8202) \<or> c = 8232 \<or> c = 8233 \<or> c = 8239 \<or> c = 8287
      \<or> c = 12288)"

definition strip :: "pystr \<Rightarrow> pystr" where
  "strip s = rev (dropWhile isspace (rev (dropWhile isspace s)))"

text \<open>\<open>str(n)\<close> for an integer that is not negative: its decimal digits.\<close>

function str_nat :: "nat \<Rightarrow> pystr" where
  "str_nat n = (if n < 10 then [48 + n] else str_nat (n div 10) @ [48 + n mod 10])"
  by pat_completeness auto
termination
  by (relation "measure (\<lambda>n. n)") auto

declare str_nat.simps [simp del]

subsection \<open>Frames: headers, encoding, decoding\<close>

text \<open>
  A header dictionary keeps insertion order: an association list with one entry per key.
  \<open>headers[key] = value\<close> is \<open>AList.update\<close>: an existing key keeps its place, a new one goes
  to the end. \<open>headers.get(key, default)\<close> and \<open>headers[key]\<close> read with \<open>map_of\<close>.
\<close>

type_synonym headers = "(pystr \<times> pystr) list"

definition dict_get :: "headers \<Rightarrow> pystr \<Rightarrow> pystr \<Rightarrow> pystr" where
  "dict_get hs key dflt = (case map_of hs key of None \<Rightarrow> dflt | Some v \<Rightarrow> v)"

text \<open>
  The frame that \<open>Dispatcher._transmit\<close> builds: the list \<open>lines\<close> and its join.
\<close>

definition frame_text :: "pystr \<Rightarrow> headers \<Rightarrow> pystr option \<Rightarrow> pystr" where
  "frame_text command hs msg =
     concat ([command @ [LF]]
             @ map (\<lambda>(key, value). key @ [colon] @ value @ [LF]) hs
             @ [[LF]]
             @ (case msg of None \<Rightarrow> [] | Some m \<Rightarrow> [m])
             @ [[NULL]])"

text \<open>
  The header loop of \<open>Dispatcher._parse_message\<close>, from index \<open>i\<close> with the headers read so
  far; it returns the index it stopped at and the headers.
\<close>

function parse_headers :: "pystr list \<Rightarrow> nat \<Rightarrow> headers \<Rightarrow> exn + (nat \<times> headers)" where
  "parse_headers lines i hs =
     (if i < length lines then
        (case py_index lines i of
           Inl e \<Rightarrow> Inl e
         | Inr line \<Rightarrow>
             if line \<noteq> [] then
               parse_headers lines (i + 1)
                 (case split_max1 colon line of
                    [key, value] \<Rightarrow> AList.update key value hs
                  | _ \<Rightarrow> hs)
             else Inr (i, hs))
      else Inr (i, hs))"
  by pat_completeness auto
termination
  by (relation "measure (\<lambda>(lines, i, hs). length lines - i)") auto

declare parse_headers.simps [simp del]

text \<open>
  \<open>Dispatcher._parse_message\<close> on a frame that is text already (the transport delivers
  text frames as \<open>str\<close>).
\<close>

definition parse_message :: "pystr \<Rightarrow> exn + (pystr \<times> headers \<times> pystr option)" where
  "parse_message frame =
     (let lines = split LF frame in
      case py_index lines 0 of
        Inl e \<Rightarrow> Inl e
      | Inr line0 \<Rightarrow>
          (case parse_headers lines 1 [] of
             Inl e \<Rightarrow> Inl e
           | Inr (i, hs) \<Rightarrow>
               if i + 1 < length lines then
                 (case py_index lines (i + 1) of
                    Inl e \<Rightarrow> Inl e
                  | Inr l \<Rightarrow> Inr (strip line0, hs, if l = [NULL] then None else Some l))
               else Inr (strip line0, hs, None)))"

subsection \<open>The transport at its boundary\<close>

text \<open>
  \<open>websocket.WebSocketApp\<close> is a library outside the repository. The model keeps what the
  engine sees of it: the texts written so far, and the exception that \<open>ws.send\<close> raises
  when the link is down (\<open>None\<close> while the link is up).
\<close>

record ws_app =
  link_failure :: "exn option"
  sent :: "pystr list"

definition ws_send :: "ws_app \<Rightarrow> pystr \<Rightarrow> exn + ws_app" where
  "ws_send w text =
     (case link_failure w of
        Some e \<Rightarrow> Inl e
      | None \<Rightarrow> Inr (w\<lparr>sent := sent w @ [text]\<rparr>))"

subsection \<open>The client: one Stomp object with its Dispatcher\<close>

text \<open>
  A callback is application code: it receives the body and acts on the application's own
  state \<open>'w\<close>; it returns normally (\<open>None\<close>) or raises. \<open>connected\<close> is \<open>None\<close> while the
  attribute does not exist, which is the case until \<open>connect()\<close> has been called.
  \<open>console\<close> holds the lines printed so far.
\<close>

type_synonym 'w callback = "pystr option \<Rightarrow> 'w \<Rightarrow> exn option \<times> 'w"

record 'w stomp =
  url :: pystr
  username :: "pystr option"
  password :: "pystr option"
  insecure :: bool
  connected :: "bool option"
  callback_registry :: "pystr \<Rightarrow> 'w callback option"
  ws :: ws_app
  opened :: bool
  console :: "pystr list"
  world :: 'w

definition VERSIONS :: pystr where
  "VERSIONS = str ''1.0,1.1''"

text \<open>
  \<open>Stomp.__init__\<close> with \<open>Dispatcher.__init__\<close>, which returns once the transport has
  opened; \<open>w\<close> is the application's state at that moment.
\<close>

definition Stomp_init ::
  "pystr \<Rightarrow> bool \<Rightarrow> bool \<Rightarrow> pystr option \<Rightarrow> pystr option \<Rightarrow> bool \<Rightarrow> 'w \<Rightarrow> 'w stomp" where
  "Stomp_init host sockjs wss user pass insec w =
     \<lparr>url = (if wss then str ''wss://'' else str ''ws://'')
             @ (if sockjs then host @ str ''/websocket'' else host),
      username = user,
      password = pass,
      insecure = insec,
      connected = None,
      callback_registry = Map.empty,
      ws = \<lparr>link_failure = None, sent = []\<rparr>,
      opened = True,
      console = [],
      world = w\<rparr>"

definition print :: "pystr \<Rightarrow> 'w stomp \<Rightarrow> 'w stomp" where
  "print line s = s\<lparr>console := console s @ [line]\<rparr>"

text \<open>
  \<open>Dispatcher._transmit\<close>: the two exceptions of a lost connection are caught and
  reported, any other one propagates. The result is the exception that leaves the call,
  if any, and the state left behind.
\<close>

definition transmit :: "'w stomp \<Rightarrow> pystr \<Rightarrow> headers \<Rightarrow> pystr option \<Rightarrow> exn option \<times> 'w stomp" where
  "transmit s command hs msg =
     (let frame = frame_text command hs msg;
          s1 = print (str ''>>>'' @ frame) s
      in case ws_send (ws s1) frame of
           Inr w' \<Rightarrow> (None, s1\<lparr>ws := w'\<rparr>)
         | Inl (WebSocketConnectionClosedException e) \<Rightarrow>
             (None, print (str ''Connection to remote host was lost.'')
                      (print (str ''Error sending message: '' @ e) s1))
         | Inl (ConnectionResetError e) \<Rightarrow>
             (None, print (str ''Connection to remote host was lost.'')
                      (print (str ''Error sending message: '' @ e) s1))
         | Inl e \<Rightarrow> (Some e, s1))"

text \<open>\<open>Dispatcher.connect\<close>, \<open>subscribe\<close>, \<open>send\<close>, \<open>disconnect\<close> and \<open>heartbeat\<close>.\<close>

definition dispatcher_connect :: "'w stomp \<Rightarrow> exn option \<times> 'w stomp" where
  "dispatcher_connect s =
     (let h1 = AList.update (str ''host'') (url s) [];
          h2 = AList.update (str ''accept-version'') VERSIONS h1;
          h3 = AList.update (str ''heart-beat'') (str ''10000,10000'') h2;
          h4 = (case username s of None \<Rightarrow> h3 | Some u \<Rightarrow> AList.update (str ''login'') u h3);
          h5 = (case password s of None \<Rightarrow> h4 | Some p \<Rightarrow> AList.update (str ''passcode'') p h4)
      in transmit s (str ''CONNECT'') h5 None)"

text \<open>
  The subscription id is made of the clock and a fresh UUID: \<open>now\<close> is
  \<open>int(time.time())\<close> and \<open>uuid4\<close> is \<open>str(uuid.uuid4())\<close>, both given by the environment.
\<close>

definition dispatcher_subscribe :: "'w stomp \<Rightarrow> pystr \<Rightarrow> nat \<Rightarrow> pystr \<Rightarrow> exn option \<times> 'w stomp" where
  "dispatcher_subscribe s destination now uuid4 =
     (let sub_id = str ''sub-'' @ str_nat now @ str ''-'' @ take 8 uuid4;
          h1 = AList.update (str ''id'') sub_id [];
          h2 = AList.update (str ''ack'') (str ''client'') h1;
          h3 = AList.update (str ''destination'') destination h2
      in transmit s (str ''SUBSCRIBE'') h3 None)"

definition dispatcher_send :: "'w stomp \<Rightarrow> pystr \<Rightarrow> pystr \<Rightarrow> exn option \<times> 'w stomp" where
  "dispatcher_send s destination message =
     (let h1 = AList.update (str ''destination'') destination [];
          h2 = AList.update (str ''content-length'') (str_nat (length message)) h1
      in transmit s (str ''SEND'') h2 (Some message))"

definition dispatcher_disconnect :: "'w stomp \<Rightarrow> exn option \<times> 'w stomp" where
  "dispatcher_disconnect s = transmit s (str ''DISCONNECT'') [] None"

definition heartbeat :: "'w stomp \<Rightarrow> exn option \<times> 'w stomp" where
  "heartbeat s =
     (case ws_send (ws s) [LF] of
        Inr w' \<Rightarrow> (None, s\<lparr>ws := w'\<rparr>)
      | Inl (WebSocketConnectionClosedException e) \<Rightarrow>
          (None, print (str ''Connection to remote host was lost.'')
                   (print (str ''Error sending heartbeat: '' @ e) s))
      | Inl (ConnectionResetError e) \<Rightarrow>
          (None, print (str ''Connection to remote host was lost.'')
                   (print (str ''Error sending heartbeat: '' @ e) s))
      | Inl e \<Rightarrow> (Some e, s))"

text \<open>
  \<open>Dispatcher._on_message\<close> on a text message. The three tests on the command follow one
  another as in the source. \<open>no_callback_warning\<close> is the handler of \<open>except KeyError\<close>.
\<close>

definition no_callback_warning :: "headers \<Rightarrow> 'w stomp \<Rightarrow> 'w stomp" where
  "no_callback_warning hs s =
     print (str ''Warning: No callback registered for destination ''
            @ dict_get hs (str ''destination'') (str ''unknown'')) s"

definition on_message :: "'w stomp \<Rightarrow> pystr \<Rightarrow> exn option \<times> 'w stomp" where
  "on_message s message =
     (let s1 = print (str ''<<< '' @ message) s in
      case parse_message message of
        Inl e \<Rightarrow> (Some e, s1)
      | Inr (command, hs, body) \<Rightarrow>
          (let s2 = (if command = str ''CONNECTED''
                     then print (str ''Successfully connected to STOMP server'')
                            (s1\<lparr>connected := Some True\<rparr>)
                     else s1);
               s3 = (if command = str ''ERROR''
                     then (let s' = print (str ''ERROR: ''
                                           @ dict_get hs (str ''message'') (str ''Unknown error'')) s2
                           in case body of
                                Some (c # cs) \<Rightarrow> print (str ''Details: '' @ c # cs) s'
                              | _ \<Rightarrow> s')
                     else s2)
           in if command = str ''MESSAGE'' then
                (case map_of hs (str ''destination'') of
                   None \<Rightarrow> (None, no_callback_warning hs s3)
                 | Some destination \<Rightarrow>
                     (case callback_registry s3 destination of
                        None \<Rightarrow> (None, no_callback_warning hs s3)
                      | Some callback \<Rightarrow>
                          (case callback body (world s3) of
                             (None, w') \<Rightarrow> (None, s3\<lparr>world := w'\<rparr>)
                           | (Some KeyError, w') \<Rightarrow>
                               (None, no_callback_warning hs (s3\<lparr>world := w'\<rparr>))
                           | (Some e, w') \<Rightarrow> (Some e, s3\<lparr>world := w'\<rparr>))))
              else (None, s3)))"

text \<open>\<open>Stomp.subscribe\<close>, \<open>Stomp.send\<close> and \<open>Stomp.disconnect\<close>.\<close>

definition subscribe ::
  "'w stomp \<Rightarrow> pystr \<Rightarrow> 'w callback \<Rightarrow> nat \<Rightarrow> pystr \<Rightarrow> exn option \<times> 'w stomp" where
  "subscribe s destination callback now uuid4 =
     dispatcher_subscribe
       (s\<lparr>callback_registry := (callback_registry s)(destination \<mapsto> callback)\<rparr>)
       destination now uuid4"

definition send :: "'w stomp \<Rightarrow> pystr \<Rightarrow> pystr \<Rightarrow> exn option \<times> 'w stomp" where
  "send s destination message = dispatcher_send s destination message"

definition disconnect :: "'w stomp \<Rightarrow> exn option \<times> 'w stomp" where
  "disconnect s =
     (if connected s = Some True then
        (case dispatcher_disconnect s of
           (None, s') \<Rightarrow> (None, s'\<lparr>connected := Some False\<rparr>)
         | (Some e, s') \<Rightarrow> (Some e, s'))
      else (None, s))"

text \<open>
  The transport's thread: it calls \<open>_on_message\<close> on every message it delivers, one after
  the other. An exception of the handler leaves through that thread; the state the handler
  left behind stays.
\<close>

fun deliver :: "'w stomp \<Rightarrow> pystr list \<Rightarrow> 'w stomp" where
  "deliver s [] = s"
| "deliver s (message # inbound) = deliver (snd (on_message s message)) inbound"

text \<open>
  \<open>Stomp.connect\<close>. Its loop polls the flag that the transport's thread sets in
  \<open>_on_message\<close>. The model runs the two in turn: \<open>inbound\<close> lists the messages that the
  transport delivers while the caller is in \<open>connect()\<close>, the flag is read before each of
  them, and the first reading that is not \<open>False\<close> ends the loop. Every message of the
  list is handled, those after the end of the loop too. When the list is used up and the
  flag is still \<open>False\<close>, the call is still waiting: \<open>Blocks\<close>.
\<close>

datatype 'a outcome = Returns 'a | Raises exn | Blocks

fun wait_connected :: "'w stomp \<Rightarrow> pystr list \<Rightarrow> bool outcome \<times> 'w stomp" where
  "wait_connected s [] =
     (case connected s of
        None \<Rightarrow> (Raises AttributeError, s)
      | Some False \<Rightarrow> (Blocks, s)
      | Some True \<Rightarrow> (Returns True, s))"
| "wait_connected s (message # inbound) =
     (case connected s of
        None \<Rightarrow> (Raises AttributeError, deliver s (message # inbound))
      | Some False \<Rightarrow> wait_connected (snd (on_message s message)) inbound
      | Some True \<Rightarrow> (Returns True, deliver s (message # inbound)))"

definition connect :: "'w stomp \<Rightarrow> pystr list \<Rightarrow> bool outcome \<times> 'w stomp" where
  "connect s inbound =
     (case dispatcher_connect (s\<lparr>connected := Some False\<rparr>) of
        (Some e, s') \<Rightarrow> (Raises e, s')
      | (None, s') \<Rightarrow> wait_connected s' inbound)"

subsection \<open>The byte length the protocol asks for\<close>

text \<open>
  The STOMP header \<open>content-length\<close> is the number of octets of the body. This is that
  number for a text sent as UTF-8, written from the protocol's definition and not from
  the source: it is what \<open>dispatcher_send\<close> is compared with.
\<close>

definition utf8_width :: "codepoint \<Rightarrow> nat" where
  "utf8_width c = (if c < 128 then 1 else if c < 2048 then 2 else if c < 65536 then 3 else 4)"

definition utf8_byte_length :: "pystr \<Rightarrow> nat" where
  "utf8_byte_length s = sum_list (map utf8_width s)"

section \<open>Properties of the codec\<close>

subsection \<open>Splitting and the header dictionary\<close>

lemma split_not_Nil: "split sep s \<noteq> []"
  by (induction s) (auto split: list.splits)

lemma split_no_sep: "sep \<notin> set a \<Longrightarrow> split sep a = [a]"
  by (induction a) auto

lemma split_append_sep: "sep \<notin> set a \<Longrightarrow> split sep (a @ sep # rest) = a # split sep rest"
  by (induction a) (auto split: list.splits simp: split_not_Nil)

lemma split_max1_header: "sep \<notin> set k \<Longrightarrow> split_max1 sep (k @ sep # v) = [k, v]"
  by (induction k) (auto simp: split_max1_def)

lemma update_fresh: "k \<notin> fst ` set acc \<Longrightarrow> AList.update k v acc = acc @ [(k, v)]"
  by (induction acc) auto

lemmas codec_eval =
  parse_message_def str_def LF_def NULL_def colon_def py_index_def strip_def isspace_def
  split_max1_def frame_text_def parse_headers.simps

subsection \<open>The decoder never raises\<close>

lemma parse_headers_total: "\<exists>r. parse_headers lines i hs = Inr r"
proof (induction lines i hs rule: parse_headers.induct)
  case (1 lines i hs)
  show ?case
    apply (subst parse_headers.simps)
    using 1 by (auto simp: py_index_def)
qed

text \<open>
  C9. \<open>Dispatcher._parse_message\<close> is total: on every input string it returns a triple of
  command, headers and body, and raises nothing. The first line exists because a split
  has at least one piece, and every later index is read under its bound.
\<close>

theorem parse_message_total: "\<exists>command hs body. parse_message frame = Inr (command, hs, body)"
proof -
  obtain i hs where r: "parse_headers (split LF frame) 1 [] = Inr (i, hs)"
    using parse_headers_total by (metis surj_pair)
  have "0 < length (split LF frame)" by (simp add: split_not_Nil)
  with r show ?thesis
    by (auto simp: parse_message_def Let_def py_index_def)
qed

subsection \<open>Decoding what the encoder wrote\<close>

lemma split_header_lines:
  assumes "\<forall>(k, v) \<in> set hs. LF \<notin> set k \<and> LF \<notin> set v" and "LF \<notin> set tail"
  shows "split LF (concat (map (\<lambda>(key, value). key @ [colon] @ value @ [LF]) hs) @ LF # tail)
         = map (\<lambda>(key, value). key @ colon # value) hs @ [[], tail]"
  using assms
proof (induction hs)
  case Nil
  then show ?case by (simp add: split_no_sep)
next
  case (Cons p hs)
  obtain k v where p: "p = (k, v)" by (cases p)
  from Cons.prems p have nolf: "LF \<notin> set (k @ colon # v)"
    by (auto simp: LF_def colon_def)
  have "split LF ((k @ colon # v) @ LF # (concat (map (\<lambda>(key, value). key @ [colon] @ value @ [LF]) hs) @ LF # tail))
        = (k @ colon # v) # split LF (concat (map (\<lambda>(key, value). key @ [colon] @ value @ [LF]) hs) @ LF # tail)"
    using nolf by (rule split_append_sep)
  with Cons p show ?case by simp
qed

lemma split_frame_text:
  assumes "LF \<notin> set command" and "\<forall>(k, v) \<in> set hs. LF \<notin> set k \<and> LF \<notin> set v"
  shows "split LF (frame_text command hs None)
         = command # map (\<lambda>(key, value). key @ colon # value) hs @ [[], [NULL]]"
proof -
  have "LF \<notin> set [NULL]" by (simp add: LF_def NULL_def)
  with assms(2) have
    "split LF (concat (map (\<lambda>(key, value). key @ [colon] @ value @ [LF]) hs) @ LF # [NULL])
     = map (\<lambda>(key, value). key @ colon # value) hs @ [[], [NULL]]"
    by (rule split_header_lines)
  then show ?thesis
    using split_append_sep [OF assms(1)] by (simp add: frame_text_def)
qed

lemma parse_headers_encoded:
  assumes "distinct (map fst hs)" and "\<forall>(k, v) \<in> set hs. colon \<notin> set k"
    and "fst ` set hs \<inter> fst ` set acc = {}"
  shows "parse_headers (pre @ map (\<lambda>(key, value). key @ colon # value) hs @ [] # post) (length pre) acc
         = Inr (length pre + length hs, acc @ hs)"
  using assms
proof (induction hs arbitrary: pre acc)
  case Nil
  show ?case by (subst parse_headers.simps) (simp add: py_index_def nth_append)
next
  case (Cons p hs)
  obtain k v where p: "p = (k, v)" by (cases p)
  let ?line = "k @ colon # v"
  from Cons.prems p have fresh: "k \<notin> fst ` set acc" and nocolon: "colon \<notin> set k"
    by auto
  have step: "parse_headers ((pre @ [?line]) @ map (\<lambda>(key, value). key @ colon # value) hs @ [] # post)
                (length (pre @ [?line])) (acc @ [(k, v)])
              = Inr (length (pre @ [?line]) + length hs, (acc @ [(k, v)]) @ hs)"
  proof (rule Cons.IH)
    show "distinct (map fst hs)" using Cons.prems by simp
    show "\<forall>(k, v) \<in> set hs. colon \<notin> set k" using Cons.prems by simp
    show "fst ` set hs \<inter> fst ` set (acc @ [(k, v)]) = {}"
      using Cons.prems p by (auto simp: image_iff)
  qed
  show ?case
    apply (subst parse_headers.simps)
    using step p
    by (simp add: py_index_def nth_append split_max1_header [OF nocolon] update_fresh [OF fresh])
qed

text \<open>
  C1, as the code has it. Take a command without line feed and without white space at
  either end, and headers with one entry per key, no colon and no line feed in a key, no
  line feed in a value. Encoded with no body, the frame decodes to the same command, the
  same headers in the same order, and no body. An empty body is written as the same wire
  text as no body, so it decodes to no body as well.
\<close>

theorem roundtrip_absent_body:
  assumes "strip command = command" and "LF \<notin> set command"
    and "distinct (map fst hs)"
    and "\<forall>(k, v) \<in> set hs. colon \<notin> set k \<and> LF \<notin> set k \<and> LF \<notin> set v"
  shows "parse_message (frame_text command hs None) = Inr (command, hs, None)
         \<and> frame_text command hs (Some []) = frame_text command hs None"
proof -
  have lf: "\<forall>(k, v) \<in> set hs. LF \<notin> set k \<and> LF \<notin> set v" using assms(4) by auto
  have co: "\<forall>(k, v) \<in> set hs. colon \<notin> set k" using assms(4) by auto
  have lines: "split LF (frame_text command hs None)
               = [command] @ map (\<lambda>(key, value). key @ colon # value) hs @ [] # [[NULL]]"
    using split_frame_text [OF assms(2) lf] by simp
  have hd: "parse_headers ([command] @ map (\<lambda>(key, value). key @ colon # value) hs @ [] # [[NULL]])
              (length [command]) [] = Inr (length [command] + length hs, [] @ hs)"
    by (rule parse_headers_encoded [OF assms(3) co]) simp
  have "parse_message (frame_text command hs None) = Inr (command, hs, None)"
    using hd assms(1) by (simp add: parse_message_def lines py_index_def nth_append)
  moreover have "frame_text command hs (Some []) = frame_text command hs None"
    by (simp add: frame_text_def)
  ultimately show ?thesis by simp
qed

theorem roundtrip_absent_body_witness:
  "parse_message (frame_text (str ''SEND'')
      [(str ''destination'', str ''/topic/x''), (str ''receipt'', str ''a:1'')] None)
     = Inr (str ''SEND'', [(str ''destination'', str ''/topic/x''), (str ''receipt'', str ''a:1'')], None)
   \<and> frame_text (str ''SEND'')
        [(str ''destination'', str ''/topic/x''), (str ''receipt'', str ''a:1'')] (Some [])
     = frame_text (str ''SEND'')
        [(str ''destination'', str ''/topic/x''), (str ''receipt'', str ''a:1'')] None"
  by (rule roundtrip_absent_body) (simp_all add: str_def strip_def isspace_def LF_def colon_def)

text \<open>
  C1 as stated fails: the frame SEND with no header and the empty string as body decodes
  to no body, not to the empty string.
\<close>

theorem roundtrip_empty_body_counterexample:
  "parse_message (frame_text (str ''SEND'') [] (Some [])) = Inr (str ''SEND'', [], None)
   \<and> parse_message (frame_text (str ''SEND'') [] (Some [])) \<noteq> Inr (str ''SEND'', [], Some [])"
  by (simp add: codec_eval)

subsection \<open>Frames from the peer\<close>

lemma parse_message_hello:
  "parse_message (str ''MESSAGE'' @ [LF] @ str ''destination:/topic/x'' @ [LF, LF]
                  @ str ''hello'' @ [NULL])
   = Inr (str ''MESSAGE'', [(str ''destination'', str ''/topic/x'')], Some (str ''hello'' @ [NULL]))"
  by (simp add: codec_eval)

lemma parse_message_error:
  "parse_message (str ''ERROR'' @ [LF] @ str ''message:bad creds'' @ [LF, LF, NULL])
   = Inr (str ''ERROR'', [(str ''message'', str ''bad creds'')], None)"
  by (simp add: codec_eval)

lemma parse_message_heartbeat: "parse_message [LF] = Inr ([], [], None)"
  by (simp add: codec_eval)

text \<open>
  C5 as stated fails: the decoder has no case for the heartbeat, and a lone line feed is
  decoded as a frame with the empty command, no header and no body.
\<close>

theorem heartbeat_empty_command_counterexample:
  "parse_message [LF] = Inr ([], [], None)"
  by (simp add: codec_eval)

section \<open>Properties of the client\<close>

subsection \<open>What transmitting and printing leave alone\<close>

lemma print_fields:
  "world (print l s) = world s"
  "callback_registry (print l s) = callback_registry s"
  "connected (print l s) = connected s"
  "ws (print l s) = ws s"
  by (simp_all add: print_def)

lemma transmit_keeps:
  "callback_registry (snd (transmit s c hs msg)) = callback_registry s"
  "world (snd (transmit s c hs msg)) = world s"
  "connected (snd (transmit s c hs msg)) = connected s"
  by (simp_all add: transmit_def print_def Let_def split: sum.splits exn.splits)

lemma transmit_link_up:
  "link_failure (ws s) = None \<Longrightarrow>
   transmit s c hs msg
   = (None, s\<lparr>console := console s @ [str ''>>>'' @ frame_text c hs msg],
               ws := (ws s)\<lparr>sent := sent (ws s) @ [frame_text c hs msg]\<rparr>\<rparr>)"
  by (simp add: transmit_def print_def Let_def ws_send_def)

lemma subscribe_registry:
  "callback_registry (snd (subscribe s d cb now uuid4)) = (callback_registry s)(d \<mapsto> cb)"
  by (simp add: subscribe_def dispatcher_subscribe_def Let_def transmit_keeps)

lemma subscribe_world: "world (snd (subscribe s d cb now uuid4)) = world s"
  by (simp add: subscribe_def dispatcher_subscribe_def Let_def transmit_keeps)

lemma command_neq:
  "str ''MESSAGE'' \<noteq> str ''CONNECTED''" "str ''MESSAGE'' \<noteq> str ''ERROR''"
  "str ''ERROR'' \<noteq> str ''CONNECTED''" "str ''ERROR'' \<noteq> str ''MESSAGE''"
  "[] \<noteq> str ''CONNECTED''" "[] \<noteq> str ''ERROR''" "[] \<noteq> str ''MESSAGE''"
  by (simp_all add: str_def)

subsection \<open>Sending and subscribing do not look at the connection flag\<close>

text \<open>
  C3, as the code has it. \<open>send\<close> and \<open>subscribe\<close> have no test of \<open>connected\<close>: in every
  state whose link is up, whatever the flag is and also before \<open>connect()\<close> was called,
  \<open>send\<close> writes the SEND frame to the transport and \<open>subscribe\<close> writes the SUBSCRIBE
  frame, at once.
\<close>

theorem send_subscribe_not_gated:
  assumes "link_failure (ws s) = None"
  shows "sent (ws (snd (send s destination message)))
         = sent (ws s) @ [frame_text (str ''SEND'')
                            [(str ''destination'', destination),
                             (str ''content-length'', str_nat (length message))]
                            (Some message)]
       \<and> sent (ws (snd (subscribe s destination callback now uuid4)))
         = sent (ws s) @ [frame_text (str ''SUBSCRIBE'')
                            [(str ''id'', str ''sub-'' @ str_nat now @ str ''-'' @ take 8 uuid4),
                             (str ''ack'', str ''client''),
                             (str ''destination'', destination)]
                            None]"
  using assms
  by (simp add: send_def dispatcher_send_def subscribe_def dispatcher_subscribe_def Let_def
      transmit_link_up str_def)

theorem send_subscribe_not_gated_witness:
  "link_failure (ws (Stomp_init (str ''broker'') False True None None False ())) = None
   \<and> connected (Stomp_init (str ''broker'') False True None None False ()) = None
   \<and> sent (ws (snd (send (Stomp_init (str ''broker'') False True None None False ())
                       (str ''/topic/x'') (str ''abc''))))
     = [frame_text (str ''SEND'')
          [(str ''destination'', str ''/topic/x''), (str ''content-length'', str ''3'')]
          (Some (str ''abc''))]
   \<and> sent (ws (snd (subscribe (Stomp_init (str ''broker'') False True None None False ())
                       (str ''/topic/x'') (\<lambda>body w. (None, w)) 17 (str ''0123456789''))))
     = [frame_text (str ''SUBSCRIBE'')
          [(str ''id'', str ''sub-17-01234567''), (str ''ack'', str ''client''),
           (str ''destination'', str ''/topic/x'')]
          None]"
  using send_subscribe_not_gated
    [of "Stomp_init (str ''broker'') False True None None False ()"
        "str ''/topic/x''" "str ''abc''" "\<lambda>body w. (None, w)" 17 "str ''0123456789''"]
  by (simp add: Stomp_init_def str_nat.simps str_def)

text \<open>
  C3 as stated fails: on a client that was built and never connected, \<open>send\<close> of
  \<open>abc\<close> to \<open>/topic/x\<close> writes the SEND frame to the transport.
\<close>

theorem send_before_connect_counterexample:
  "connected (Stomp_init (str ''broker'') False True None None False ()) = None
   \<and> sent (ws (snd (send (Stomp_init (str ''broker'') False True None None False ())
                       (str ''/topic/x'') (str ''abc''))))
     = [str ''SEND'' @ [LF] @ str ''destination:/topic/x'' @ [LF] @ str ''content-length:3''
        @ [LF, LF] @ str ''abc'' @ [NULL]]"
  by (simp add: send_def dispatcher_send_def Let_def transmit_link_up
      Stomp_init_def frame_text_def str_nat.simps str_def LF_def NULL_def colon_def)

text \<open>
  C6, where the code departs from it: \<open>content-length\<close> is \<open>len(message)\<close>, the number of
  code points. For the one character U+00E9 the header says 1, and the body is 2 octets
  in UTF-8.
\<close>

theorem content_length_counts_code_points:
  "sent (ws (snd (send (Stomp_init (str ''broker'') False True None None False ())
                       (str ''/topic/x'') [233])))
     = [str ''SEND'' @ [LF] @ str ''destination:/topic/x'' @ [LF] @ str ''content-length:1''
        @ [LF, LF] @ [233, NULL]]
   \<and> utf8_byte_length [233] = 2"
  by (simp add: send_def dispatcher_send_def Let_def transmit_link_up
      Stomp_init_def frame_text_def str_nat.simps str_def LF_def NULL_def colon_def
      utf8_byte_length_def utf8_width_def)

subsection \<open>Dispatch of MESSAGE frames\<close>

lemma on_message_MESSAGE:
  assumes "parse_message m = Inr (str ''MESSAGE'', hs, body)"
    and "map_of hs (str ''destination'') = Some d"
  shows "on_message s m =
     (case callback_registry s d of
        None \<Rightarrow> (None, no_callback_warning hs (print (str ''<<< '' @ m) s))
      | Some callback \<Rightarrow>
          (case callback body (world s) of
             (None, w') \<Rightarrow> (None, (print (str ''<<< '' @ m) s)\<lparr>world := w'\<rparr>)
           | (Some KeyError, w') \<Rightarrow>
               (None, no_callback_warning hs ((print (str ''<<< '' @ m) s)\<lparr>world := w'\<rparr>))
           | (Some e, w') \<Rightarrow> (Some e, (print (str ''<<< '' @ m) s)\<lparr>world := w'\<rparr>)))"
  using assms
  by (cases "callback_registry s d") (simp_all add: on_message_def Let_def command_neq print_fields)

text \<open>
  C8. A MESSAGE frame whose destination has no callback in the registry is dropped: the
  handler returns normally, and the only change is on the console, the echo of the
  message and the warning that names the destination.
\<close>

theorem unrouted_message_dropped:
  assumes "parse_message m = Inr (str ''MESSAGE'', hs, body)"
    and "map_of hs (str ''destination'') = Some d"
    and "callback_registry s d = None"
  shows "on_message s m =
     (None, print (str ''Warning: No callback registered for destination '' @ d)
              (print (str ''<<< '' @ m) s))"
  using assms by (simp add: on_message_MESSAGE no_callback_warning_def dict_get_def)

theorem unrouted_message_dropped_witness:
  "on_message (Stomp_init (str ''broker'') False True None None False ())
     (str ''MESSAGE'' @ [LF] @ str ''destination:/topic/x'' @ [LF, LF] @ str ''hello'' @ [NULL])
   = (None, print (str ''Warning: No callback registered for destination /topic/x'')
              (print (str ''<<< '' @ str ''MESSAGE'' @ [LF] @ str ''destination:/topic/x''
                        @ [LF, LF] @ str ''hello'' @ [NULL])
                 (Stomp_init (str ''broker'') False True None None False ())))"
  using unrouted_message_dropped
    [OF parse_message_hello, of "str ''/topic/x''"
        "Stomp_init (str ''broker'') False True None None False ()"]
  by (simp add: Stomp_init_def str_def)

text \<open>
  C10. When the callback registered for the destination raises, \<open>KeyError\<close> is caught:
  the handler prints the same warning as for a destination without callback and returns
  normally. Any other exception leaves the handler. In both cases what the callback did
  to the application's state before raising stays done.
\<close>

theorem callback_exception:
  assumes "parse_message m = Inr (str ''MESSAGE'', hs, body)"
    and "map_of hs (str ''destination'') = Some d"
    and "callback_registry s d = Some callback"
    and "callback body (world s) = (Some e, w')"
  shows "on_message s m =
     (if e = KeyError
      then (None, print (str ''Warning: No callback registered for destination '' @ d)
                    ((print (str ''<<< '' @ m) s)\<lparr>world := w'\<rparr>))
      else (Some e, (print (str ''<<< '' @ m) s)\<lparr>world := w'\<rparr>))"
  using assms
  by (cases e) (simp_all add: on_message_MESSAGE no_callback_warning_def dict_get_def)

theorem callback_exception_witness:
  "on_message
     (snd (subscribe (Stomp_init (str ''broker'') False True None None False (0::nat))
             (str ''/topic/x'') (\<lambda>body w. (Some KeyError, Suc w)) 17 (str ''0123456789'')))
     (str ''MESSAGE'' @ [LF] @ str ''destination:/topic/x'' @ [LF, LF] @ str ''hello'' @ [NULL])
   = (None,
      print (str ''Warning: No callback registered for destination /topic/x'')
        ((print (str ''<<< '' @ str ''MESSAGE'' @ [LF] @ str ''destination:/topic/x''
                  @ [LF, LF] @ str ''hello'' @ [NULL])
            (snd (subscribe (Stomp_init (str ''broker'') False True None None False (0::nat))
               (str ''/topic/x'') (\<lambda>body w. (Some KeyError, Suc w)) 17 (str ''0123456789''))))
         \<lparr>world := 1\<rparr>))
   \<and> on_message
     (snd (subscribe (Stomp_init (str ''broker'') False True None None False (0::nat))
             (str ''/topic/x'') (\<lambda>body w. (Some (OtherException []), Suc w)) 17 (str ''0123456789'')))
     (str ''MESSAGE'' @ [LF] @ str ''destination:/topic/x'' @ [LF, LF] @ str ''hello'' @ [NULL])
   = (Some (OtherException []),
      (print (str ''<<< '' @ str ''MESSAGE'' @ [LF] @ str ''destination:/topic/x''
                  @ [LF, LF] @ str ''hello'' @ [NULL])
            (snd (subscribe (Stomp_init (str ''broker'') False True None None False (0::nat))
               (str ''/topic/x'') (\<lambda>body w. (Some (OtherException []), Suc w)) 17 (str ''0123456789''))))
         \<lparr>world := 1\<rparr>)"
proof -
  have caught: "on_message
     (snd (subscribe (Stomp_init (str ''broker'') False True None None False (0::nat))
             (str ''/topic/x'') (\<lambda>body w. (Some KeyError, Suc w)) 17 (str ''0123456789'')))
     (str ''MESSAGE'' @ [LF] @ str ''destination:/topic/x'' @ [LF, LF] @ str ''hello'' @ [NULL])
   = (None,
      print (str ''Warning: No callback registered for destination /topic/x'')
        ((print (str ''<<< '' @ str ''MESSAGE'' @ [LF] @ str ''destination:/topic/x''
                  @ [LF, LF] @ str ''hello'' @ [NULL])
            (snd (subscribe (Stomp_init (str ''broker'') False True None None False (0::nat))
               (str ''/topic/x'') (\<lambda>body w. (Some KeyError, Suc w)) 17 (str ''0123456789''))))
         \<lparr>world := 1\<rparr>))"
    using callback_exception
      [OF parse_message_hello, of "str ''/topic/x''"
        "snd (subscribe (Stomp_init (str ''broker'') False True None None False (0::nat))
             (str ''/topic/x'') (\<lambda>body w. (Some KeyError, Suc w)) 17 (str ''0123456789''))"
        "\<lambda>body w. (Some KeyError, Suc w)" KeyError 1]
    by (simp add: subscribe_registry subscribe_world Stomp_init_def str_def)
  have raised: "on_message
     (snd (subscribe (Stomp_init (str ''broker'') False True None None False (0::nat))
             (str ''/topic/x'') (\<lambda>body w. (Some (OtherException []), Suc w)) 17 (str ''0123456789'')))
     (str ''MESSAGE'' @ [LF] @ str ''destination:/topic/x'' @ [LF, LF] @ str ''hello'' @ [NULL])
   = (Some (OtherException []),
      (print (str ''<<< '' @ str ''MESSAGE'' @ [LF] @ str ''destination:/topic/x''
                  @ [LF, LF] @ str ''hello'' @ [NULL])
            (snd (subscribe (Stomp_init (str ''broker'') False True None None False (0::nat))
               (str ''/topic/x'') (\<lambda>body w. (Some (OtherException []), Suc w)) 17 (str ''0123456789''))))
         \<lparr>world := 1\<rparr>)"
    using callback_exception
      [OF parse_message_hello, of "str ''/topic/x''"
        "snd (subscribe (Stomp_init (str ''broker'') False True None None False (0::nat))
             (str ''/topic/x'') (\<lambda>body w. (Some (OtherException []), Suc w)) 17 (str ''0123456789''))"
        "\<lambda>body w. (Some (OtherException []), Suc w)" "OtherException []" 1]
    by (simp add: subscribe_registry subscribe_world Stomp_init_def str_def)
  from caught raised show ?thesis by (rule conjI)
qed

subsection \<open>The registry under inbound traffic\<close>

lemma no_callback_warning_fields:
  "callback_registry (no_callback_warning hs s) = callback_registry s"
  "connected (no_callback_warning hs s) = connected s"
  "world (no_callback_warning hs s) = world s"
  "ws (no_callback_warning hs s) = ws s"
  by (simp_all add: no_callback_warning_def print_fields)

lemma on_message_MESSAGE_registry:
  assumes "parse_message m = Inr (str ''MESSAGE'', hs, body)"
  shows "callback_registry (snd (on_message s m)) = callback_registry s"
proof (cases "map_of hs (str ''destination'')")
  case None
  with assms show ?thesis
    by (simp add: on_message_def Let_def command_neq print_fields no_callback_warning_fields)
next
  case (Some d)
  show ?thesis
  proof (cases "callback_registry s d")
    case None
    then show ?thesis
      by (simp add: on_message_MESSAGE [OF assms Some] print_fields no_callback_warning_fields)
  next
    case cb: (Some callback)
    obtain r w' where c: "callback body (world s) = (r, w')"
      by (cases "callback body (world s)")
    show ?thesis
    proof (cases r)
      case None
      with cb c show ?thesis
        by (simp add: on_message_MESSAGE [OF assms Some] print_fields)
    next
      case e: (Some e)
      with cb c show ?thesis
        by (cases e)
           (simp_all add: on_message_MESSAGE [OF assms Some] print_fields no_callback_warning_fields)
    qed
  qed
qed

lemma on_message_other_registry:
  assumes "parse_message m = Inr (command, hs, body)" and "command \<noteq> str ''MESSAGE''"
  shows "callback_registry (snd (on_message s m)) = callback_registry s"
  using assms
  by (simp add: on_message_def Let_def print_fields split: option.splits list.splits)

lemma on_message_registry: "callback_registry (snd (on_message s m)) = callback_registry s"
proof (cases "parse_message m")
  case (Inl e)
  then show ?thesis by (simp add: on_message_def print_fields)
next
  case (Inr t)
  obtain command hs body where t: "t = (command, hs, body)" by (cases t)
  show ?thesis
  proof (cases "command = str ''MESSAGE''")
    case True
    with Inr t show ?thesis by (simp add: on_message_MESSAGE_registry)
  next
    case False
    with Inr t show ?thesis by (simp add: on_message_other_registry)
  qed
qed

lemma deliver_registry: "callback_registry (deliver s ms) = callback_registry s"
  by (induction ms arbitrary: s) (simp_all add: on_message_registry)

text \<open>
  C7. Subscribing to a destination with \<open>c1\<close> and then with \<open>c2\<close> leaves the registry as
  one subscription with \<open>c2\<close> does, and no inbound message changes the registry: after any
  messages \<open>pre\<close> that the transport delivers next, the registry is still that one. So
  every later MESSAGE frame for the destination is dispatched to \<open>c2\<close> alone: the handler
  does what the call of \<open>c2\<close> on the body decides, the application's state after it is the
  one \<open>c2\<close> makes of the state before, and \<open>c1\<close> is not called.
\<close>

theorem subscribe_overwrites:
  assumes "parse_message m = Inr (str ''MESSAGE'', hs, body)"
    and "map_of hs (str ''destination'') = Some d"
  shows "callback_registry (snd (subscribe (snd (subscribe s d c1 n1 u1)) d c2 n2 u2))
         = callback_registry (snd (subscribe s d c2 n u))
       \<and> callback_registry (deliver (snd (subscribe (snd (subscribe s d c1 n1 u1)) d c2 n2 u2)) pre)
         = callback_registry (snd (subscribe s d c2 n u))
       \<and> on_message (deliver (snd (subscribe (snd (subscribe s d c1 n1 u1)) d c2 n2 u2)) pre) m
         = (case c2 body (world (deliver (snd (subscribe (snd (subscribe s d c1 n1 u1)) d c2 n2 u2)) pre)) of
              (None, w') \<Rightarrow>
                (None, (print (str ''<<< '' @ m)
                          (deliver (snd (subscribe (snd (subscribe s d c1 n1 u1)) d c2 n2 u2)) pre))
                       \<lparr>world := w'\<rparr>)
            | (Some KeyError, w') \<Rightarrow>
                (None, no_callback_warning hs
                         ((print (str ''<<< '' @ m)
                             (deliver (snd (subscribe (snd (subscribe s d c1 n1 u1)) d c2 n2 u2)) pre))
                          \<lparr>world := w'\<rparr>))
            | (Some e, w') \<Rightarrow>
                (Some e, (print (str ''<<< '' @ m)
                            (deliver (snd (subscribe (snd (subscribe s d c1 n1 u1)) d c2 n2 u2)) pre))
                         \<lparr>world := w'\<rparr>))
       \<and> world (snd (on_message
                      (deliver (snd (subscribe (snd (subscribe s d c1 n1 u1)) d c2 n2 u2)) pre) m))
         = snd (c2 body (world (deliver (snd (subscribe (snd (subscribe s d c1 n1 u1)) d c2 n2 u2)) pre)))"
proof -
  let ?s2 = "snd (subscribe (snd (subscribe s d c1 n1 u1)) d c2 n2 u2)"
  let ?s' = "deliver ?s2 pre"
  have eq: "callback_registry ?s2 = callback_registry (snd (subscribe s d c2 n u))"
    by (simp add: subscribe_registry)
  have keep: "callback_registry ?s' = callback_registry (snd (subscribe s d c2 n u))"
    by (simp add: deliver_registry subscribe_registry)
  have reg: "callback_registry ?s' d = Some c2"
    by (simp add: deliver_registry subscribe_registry)
  have disp: "on_message ?s' m
         = (case c2 body (world ?s') of
              (None, w') \<Rightarrow> (None, (print (str ''<<< '' @ m) ?s')\<lparr>world := w'\<rparr>)
            | (Some KeyError, w') \<Rightarrow>
                (None, no_callback_warning hs ((print (str ''<<< '' @ m) ?s')\<lparr>world := w'\<rparr>))
            | (Some e, w') \<Rightarrow> (Some e, (print (str ''<<< '' @ m) ?s')\<lparr>world := w'\<rparr>))"
    by (simp add: on_message_MESSAGE [OF assms] reg)
  have w: "world (snd (on_message ?s' m)) = snd (c2 body (world ?s'))"
    by (simp add: disp no_callback_warning_def print_def
        split: prod.splits option.splits exn.splits)
  from eq keep disp w show ?thesis by blast
qed

theorem subscribe_overwrites_witness:
  "callback_registry
     (snd (subscribe
        (snd (subscribe (Stomp_init (str ''broker'') False True None None False [])
                (str ''/topic/x'') (\<lambda>body w. (None, w @ [(1::nat, body)])) 17 (str ''aaaaaaaa'')))
        (str ''/topic/x'') (\<lambda>body w. (None, w @ [(2::nat, body)])) 18 (str ''bbbbbbbb'')))
   = callback_registry
       (snd (subscribe (Stomp_init (str ''broker'') False True None None False [])
               (str ''/topic/x'') (\<lambda>body w. (None, w @ [(2::nat, body)])) 19 (str ''cccccccc'')))
   \<and> world (snd (on_message
        (snd (subscribe
           (snd (subscribe (Stomp_init (str ''broker'') False True None None False [])
                   (str ''/topic/x'') (\<lambda>body w. (None, w @ [(1::nat, body)])) 17 (str ''aaaaaaaa'')))
           (str ''/topic/x'') (\<lambda>body w. (None, w @ [(2::nat, body)])) 18 (str ''bbbbbbbb'')))
        (str ''MESSAGE'' @ [LF] @ str ''destination:/topic/x'' @ [LF, LF] @ str ''hello'' @ [NULL])))
     = [(2, Some (str ''hello'' @ [NULL]))]
   \<and> world (snd (on_message
        (deliver
          (snd (subscribe
             (snd (subscribe (Stomp_init (str ''broker'') False True None None False [])
                     (str ''/topic/x'') (\<lambda>body w. (None, w @ [(1::nat, body)])) 17 (str ''aaaaaaaa'')))
             (str ''/topic/x'') (\<lambda>body w. (None, w @ [(2::nat, body)])) 18 (str ''bbbbbbbb'')))
          [str ''MESSAGE'' @ [LF] @ str ''destination:/topic/x'' @ [LF, LF] @ str ''hello'' @ [NULL]])
        (str ''MESSAGE'' @ [LF] @ str ''destination:/topic/x'' @ [LF, LF] @ str ''hello'' @ [NULL])))
     = [(2, Some (str ''hello'' @ [NULL])), (2, Some (str ''hello'' @ [NULL]))]"
proof -
  let ?s0 = "Stomp_init (str ''broker'') False True None None False []"
  let ?c1 = "\<lambda>body w. (None, w @ [(1::nat, body)])"
  let ?c2 = "\<lambda>body w. (None, w @ [(2::nat, body)])"
  let ?s2 = "snd (subscribe (snd (subscribe ?s0 (str ''/topic/x'') ?c1 17 (str ''aaaaaaaa'')))
                    (str ''/topic/x'') ?c2 18 (str ''bbbbbbbb''))"
  let ?m = "str ''MESSAGE'' @ [LF] @ str ''destination:/topic/x'' @ [LF, LF] @ str ''hello'' @ [NULL]"
  have d: "map_of [(str ''destination'', str ''/topic/x'')] (str ''destination'') = Some (str ''/topic/x'')"
    by simp
  have w0: "world ?s2 = []"
    by (simp add: subscribe_world Stomp_init_def)
  note first = subscribe_overwrites
    [OF parse_message_hello d, of ?s0 ?c1 17 "str ''aaaaaaaa''" ?c2 18 "str ''bbbbbbbb''" 19
        "str ''cccccccc''" "[]"]
  note second = subscribe_overwrites
    [OF parse_message_hello d, of ?s0 ?c1 17 "str ''aaaaaaaa''" ?c2 18 "str ''bbbbbbbb''" 19
        "str ''cccccccc''" "[?m]"]
  have reg: "callback_registry ?s2
             = callback_registry (snd (subscribe ?s0 (str ''/topic/x'') ?c2 19 (str ''cccccccc'')))"
    by (rule first [THEN conjunct1])
  have one: "world (snd (on_message ?s2 ?m)) = [(2, Some (str ''hello'' @ [NULL]))]"
    using first [THEN conjunct2, THEN conjunct2, THEN conjunct2] w0 by simp
  have two: "world (snd (on_message (deliver ?s2 [?m]) ?m))
             = [(2, Some (str ''hello'' @ [NULL])), (2, Some (str ''hello'' @ [NULL]))]"
    using second [THEN conjunct2, THEN conjunct2, THEN conjunct2] one by simp
  from reg one two show ?thesis by (intro conjI)
qed

subsection \<open>The body handed to the callback\<close>

text \<open>
  C2, where the code departs from it: the body handed to the callback is the whole line
  after the blank line, with the NULL octet that ends the frame still at its end. For the
  frame MESSAGE, destination \<open>/topic/x\<close>, body \<open>hello\<close>, the callback receives \<open>hello\<close>
  followed by the NULL octet.
\<close>

theorem message_body_keeps_NULL:
  "parse_message (str ''MESSAGE'' @ [LF] @ str ''destination:/topic/x'' @ [LF, LF]
                  @ str ''hello'' @ [NULL])
   = Inr (str ''MESSAGE'', [(str ''destination'', str ''/topic/x'')], Some (str ''hello'' @ [NULL]))
   \<and> world (snd (on_message
        (snd (subscribe (Stomp_init (str ''broker'') False True None None False [])
                (str ''/topic/x'') (\<lambda>body w. (None, w @ [body])) 17 (str ''aaaaaaaa'')))
        (str ''MESSAGE'' @ [LF] @ str ''destination:/topic/x'' @ [LF, LF] @ str ''hello'' @ [NULL])))
     = [Some (str ''hello'' @ [NULL])]"
proof -
  let ?s = "snd (subscribe (Stomp_init (str ''broker'') False True None None False [])
                (str ''/topic/x'') (\<lambda>body w. (None, w @ [body])) 17 (str ''aaaaaaaa''))"
  have m: "map_of [(str ''destination'', str ''/topic/x'')] (str ''destination'') = Some (str ''/topic/x'')"
    by simp
  have r: "callback_registry ?s (str ''/topic/x'') = Some (\<lambda>body w. (None, w @ [body]))"
    by (simp add: subscribe_registry)
  have w: "world ?s = []"
    by (simp add: subscribe_world Stomp_init_def)
  have "world (snd (on_message ?s
          (str ''MESSAGE'' @ [LF] @ str ''destination:/topic/x'' @ [LF, LF] @ str ''hello'' @ [NULL])))
        = [Some (str ''hello'' @ [NULL])]"
    unfolding on_message_MESSAGE [OF parse_message_hello m] r w by simp
  with parse_message_hello show ?thesis by (rule conjI)
qed

subsection \<open>ERROR frames and the waiting connect\<close>

lemma on_message_ERROR:
  assumes "parse_message m = Inr (str ''ERROR'', hs, body)"
  shows "on_message s m =
     (None, case body of
              Some (c # cs) \<Rightarrow>
                print (str ''Details: '' @ c # cs)
                  (print (str ''ERROR: '' @ dict_get hs (str ''message'') (str ''Unknown error''))
                     (print (str ''<<< '' @ m) s))
            | _ \<Rightarrow>
                print (str ''ERROR: '' @ dict_get hs (str ''message'') (str ''Unknown error''))
                  (print (str ''<<< '' @ m) s))"
  using assms
  by (simp add: on_message_def Let_def command_neq split: option.splits list.splits)

lemma on_message_ERROR_fields:
  assumes "parse_message m = Inr (str ''ERROR'', hs, body)"
  shows "connected (snd (on_message s m)) = connected s"
    and "callback_registry (snd (on_message s m)) = callback_registry s"
    and "ws (snd (on_message s m)) = ws s"
    and "world (snd (on_message s m)) = world s"
  by (simp_all add: on_message_ERROR [OF assms] print_fields split: option.splits list.splits)

lemma on_message_ERROR_console:
  assumes "parse_message m = Inr (str ''ERROR'', hs, body)"
  shows "console (snd (on_message s m))
         = console s
           @ [str ''<<< '' @ m,
              str ''ERROR: '' @ dict_get hs (str ''message'') (str ''Unknown error'')]
           @ (case body of Some (c # cs) \<Rightarrow> [str ''Details: '' @ c # cs] | _ \<Rightarrow> [])"
  by (simp add: on_message_ERROR [OF assms] print_def split: option.splits list.splits)

lemma wait_blocks_on_errors:
  assumes "\<forall>m \<in> set ms. \<exists>hs body. parse_message m = Inr (str ''ERROR'', hs, body)"
    and "connected s = Some False"
  shows "fst (wait_connected s ms) = Blocks
         \<and> connected (snd (wait_connected s ms)) = Some False"
  using assms
proof (induction ms arbitrary: s)
  case Nil
  then show ?case by simp
next
  case (Cons m ms)
  from Cons.prems(1) obtain hs body where p: "parse_message m = Inr (str ''ERROR'', hs, body)"
    by auto
  have c: "connected (snd (on_message s m)) = Some False"
    by (simp add: on_message_ERROR_fields(1) [OF p] Cons.prems(2))
  have rest: "\<forall>m \<in> set ms. \<exists>hs body. parse_message m = Inr (str ''ERROR'', hs, body)"
    using Cons.prems(1) by simp
  from Cons.IH [OF rest c] Cons.prems(2) show ?case by simp
qed

lemma wait_never_False: "fst (wait_connected s inbound) \<noteq> Returns False"
  by (induction inbound arbitrary: s) (auto split: option.splits bool.splits)

lemma connect_never_False: "fst (connect t inbound) \<noteq> Returns False"
  by (simp add: connect_def wait_never_False split: prod.splits option.splits)

lemma after_dispatcher_connect:
  "link_failure (ws s) = None \<Longrightarrow> fst (dispatcher_connect s) = None
     \<and> connected (snd (dispatcher_connect s)) = connected s"
  by (simp add: dispatcher_connect_def Let_def transmit_link_up)

text \<open>
  C4, as the code has it. There is no failed state. For every state and every frame whose
  command is ERROR, the handler returns normally and only reports: it prints the echo of
  the message, a line with the \<open>message\<close> header (\<open>Unknown error\<close> when the header is
  absent) and, when the body is not empty, a line with the body; the connection flag,
  the registry, the transport and the application's state stay as they were. A
  \<open>connect()\<close> that is waiting (the flag is \<open>False\<close>) keeps waiting however many ERROR
  frames arrive: it is still blocked, the flag still \<open>False\<close>. \<open>connect()\<close> never
  returns \<open>False\<close>.
\<close>

theorem error_frame_only_reported:
  assumes "parse_message m = Inr (str ''ERROR'', hs, body)"
    and "\<forall>m' \<in> set ms. \<exists>hs' body'. parse_message m' = Inr (str ''ERROR'', hs', body')"
  shows "on_message s m =
           (None, case body of
                    Some (c # cs) \<Rightarrow>
                      print (str ''Details: '' @ c # cs)
                        (print (str ''ERROR: '' @ dict_get hs (str ''message'') (str ''Unknown error''))
                           (print (str ''<<< '' @ m) s))
                  | _ \<Rightarrow>
                      print (str ''ERROR: '' @ dict_get hs (str ''message'') (str ''Unknown error''))
                        (print (str ''<<< '' @ m) s))
       \<and> console (snd (on_message s m))
         = console s
           @ [str ''<<< '' @ m,
              str ''ERROR: '' @ dict_get hs (str ''message'') (str ''Unknown error'')]
           @ (case body of Some (c # cs) \<Rightarrow> [str ''Details: '' @ c # cs] | _ \<Rightarrow> [])
       \<and> connected (snd (on_message s m)) = connected s
       \<and> callback_registry (snd (on_message s m)) = callback_registry s
       \<and> ws (snd (on_message s m)) = ws s
       \<and> world (snd (on_message s m)) = world s
       \<and> fst (wait_connected (s\<lparr>connected := Some False\<rparr>) (m # ms)) = Blocks
       \<and> connected (snd (wait_connected (s\<lparr>connected := Some False\<rparr>) (m # ms))) = Some False
       \<and> fst (connect t inbound) \<noteq> Returns False"
proof -
  have all: "\<forall>m' \<in> set (m # ms). \<exists>hs' body'. parse_message m' = Inr (str ''ERROR'', hs', body')"
    using assms by auto
  have pending: "connected (s\<lparr>connected := Some False\<rparr>) = Some False" by simp
  note w = wait_blocks_on_errors [OF all pending]
  from on_message_ERROR [OF assms(1)] on_message_ERROR_console [OF assms(1)]
    on_message_ERROR_fields [OF assms(1)] w [THEN conjunct1] w [THEN conjunct2]
    connect_never_False
  show ?thesis by (intro conjI)
qed

theorem error_frame_only_reported_witness:
  "on_message (Stomp_init (str ''broker'') False True None None False ())
     (str ''ERROR'' @ [LF] @ str ''message:bad creds'' @ [LF, LF, NULL])
   = (None,
      print (str ''ERROR: '' @ str ''bad creds'')
        (print (str ''<<< '' @ str ''ERROR'' @ [LF] @ str ''message:bad creds'' @ [LF, LF, NULL])
           (Stomp_init (str ''broker'') False True None None False ())))
   \<and> console (snd (on_message (Stomp_init (str ''broker'') False True None None False ())
                     (str ''ERROR'' @ [LF] @ str ''message:bad creds'' @ [LF, LF, NULL])))
     = [str ''<<< '' @ str ''ERROR'' @ [LF] @ str ''message:bad creds'' @ [LF, LF, NULL],
        str ''ERROR: '' @ str ''bad creds'']
   \<and> fst (wait_connected
            ((Stomp_init (str ''broker'') False True None None False ())\<lparr>connected := Some False\<rparr>)
            [str ''ERROR'' @ [LF] @ str ''message:bad creds'' @ [LF, LF, NULL],
             str ''ERROR'' @ [LF] @ str ''message:bad creds'' @ [LF, LF, NULL]]) = Blocks"
proof -
  let ?s0 = "Stomp_init (str ''broker'') False True None None False ()"
  let ?m = "str ''ERROR'' @ [LF] @ str ''message:bad creds'' @ [LF, LF, NULL]"
  have all: "\<forall>m' \<in> set [?m]. \<exists>hs' body'. parse_message m' = Inr (str ''ERROR'', hs', body')"
  proof
    fix m' assume "m' \<in> set [?m]"
    then have "m' = ?m" by simp
    with parse_message_error show "\<exists>hs' body'. parse_message m' = Inr (str ''ERROR'', hs', body')"
      by blast
  qed
  note t = error_frame_only_reported [OF parse_message_error all, of ?s0 ?s0 "[]"]
  have msg: "dict_get [(str ''message'', str ''bad creds'')] (str ''message'') (str ''Unknown error'')
             = str ''bad creds''"
    by (simp add: dict_get_def)
  have a: "on_message ?s0 ?m
           = (None, print (str ''ERROR: '' @ str ''bad creds'') (print (str ''<<< '' @ ?m) ?s0))"
    using t [THEN conjunct1] msg by simp
  have b: "console (snd (on_message ?s0 ?m)) = [str ''<<< '' @ ?m, str ''ERROR: '' @ str ''bad creds'']"
    using t [THEN conjunct2, THEN conjunct1] msg by (simp add: Stomp_init_def)
  have c: "fst (wait_connected (?s0\<lparr>connected := Some False\<rparr>) [?m, ?m]) = Blocks"
    using t by blast
  from a b c show ?thesis by (intro conjI)
qed

text \<open>
  C4 as stated fails: with the frame ERROR, \<open>message:bad creds\<close> as the only inbound
  message, \<open>connect()\<close> does not return; it is still waiting, the flag \<open>False\<close>.
\<close>

theorem error_frame_counterexample:
  "fst (connect (Stomp_init (str ''broker'') False True None None False ())
          [str ''ERROR'' @ [LF] @ str ''message:bad creds'' @ [LF, LF, NULL]]) = Blocks
   \<and> connected (snd (connect (Stomp_init (str ''broker'') False True None None False ())
          [str ''ERROR'' @ [LF] @ str ''message:bad creds'' @ [LF, LF, NULL]])) = Some False"
proof -
  let ?s0 = "(Stomp_init (str ''broker'') False True None None False ())\<lparr>connected := Some False\<rparr>"
  let ?m = "str ''ERROR'' @ [LF] @ str ''message:bad creds'' @ [LF, LF, NULL]"
  have up: "link_failure (ws ?s0) = None" by (simp add: Stomp_init_def)
  obtain s1 where d: "dispatcher_connect ?s0 = (None, s1)" and c1: "connected s1 = Some False"
    using after_dispatcher_connect [OF up] by (cases "dispatcher_connect ?s0") auto
  have e: "connected (snd (on_message s1 ?m)) = Some False"
    using on_message_ERROR_fields(1) [OF parse_message_error, where s = s1] c1 by simp
  have "wait_connected s1 [?m] = (Blocks, snd (on_message s1 ?m))"
    using c1 e by simp
  then show ?thesis
    using e by (simp add: connect_def d)
qed

subsection \<open>An inbound heartbeat\<close>

text \<open>
  C5, as the code has it. A lone line feed is decoded as the frame with the empty
  command, no header and no body. The dispatch compares this command with CONNECTED,
  ERROR and MESSAGE, matches none, and only echoes the message on the console.
\<close>

theorem heartbeat_dispatch:
  "parse_message [LF] = Inr ([], [], None)
   \<and> on_message s [LF] = (None, print (str ''<<< '' @ [LF]) s)"
  by (simp add: on_message_def parse_message_heartbeat command_neq)

end
